theory Spec2Isabelle
  imports Main
begin

section \<open>C strings and the std::string operations the commands use\<close>

text \<open>
  A \<open>std::string\<close> is a byte list. A \<open>const char*\<close> is modelled by the bytes it points
  to; whoever reads it as a C string sees them up to the first null byte (\<open>c_str\<close>).
  \<open>size_t\<close> is 32 bits wide on the wasm32 target: positions are naturals, \<open>npos\<close> is the
  largest \<open>size_t\<close>, and the two additions the source performs on a position that may be
  \<open>npos\<close> have their wrap-around written out (\<open>size_t_add\<close>).
\<close>

definition NUL :: char where
  "NUL = CHR 0x00"

definition c_str :: "string \<Rightarrow> string" where
  "c_str s = takeWhile (\<lambda>c. c \<noteq> NUL) s"

definition strlen :: "string \<Rightarrow> nat" where
  "strlen s = length (c_str s)"

definition npos :: nat where
  "npos = 4294967295"

definition size_t_add :: "nat \<Rightarrow> nat \<Rightarrow> nat" where
  "size_t_add a b = (a + b) mod 4294967296"

datatype exn = out_of_range | length_error

text \<open>\<open>scan_first P s i\<close>: the index (counted from \<open>i\<close>) of the first character of \<open>s\<close>
  satisfying \<open>P\<close>, or \<open>npos\<close>.\<close>

fun scan_first :: "(char \<Rightarrow> bool) \<Rightarrow> string \<Rightarrow> nat \<Rightarrow> nat" where
  "scan_first P [] i = npos"
| "scan_first P (c # cs) i = (if P c then i else scan_first P cs (Suc i))"

text \<open>\<open>scan_last P s i found\<close>: the index of the last character satisfying \<open>P\<close>, or
  \<open>found\<close> when there is none.\<close>

fun scan_last :: "(char \<Rightarrow> bool) \<Rightarrow> string \<Rightarrow> nat \<Rightarrow> nat \<Rightarrow> nat" where
  "scan_last P [] i found = found"
| "scan_last P (c # cs) i found = scan_last P cs (Suc i) (if P c then i else found)"

definition find_char :: "string \<Rightarrow> char \<Rightarrow> nat" where
  "find_char s ch = scan_first (\<lambda>c. c = ch) s 0"

definition find_first_not_of :: "string \<Rightarrow> string \<Rightarrow> nat" where
  "find_first_not_of s chars = scan_first (\<lambda>c. c \<notin> set chars) s 0"

definition find_last_not_of :: "string \<Rightarrow> string \<Rightarrow> nat" where
  "find_last_not_of s chars = scan_last (\<lambda>c. c \<notin> set chars) s 0 npos"

text \<open>\<open>s.substr(pos, n)\<close> throws \<open>std::out_of_range\<close> when \<open>pos > s.size()\<close> and otherwise
  yields at most \<open>n\<close> characters from \<open>pos\<close> on; \<open>s.substr(pos)\<close> is \<open>substr s pos npos\<close>.\<close>

definition substr :: "string \<Rightarrow> nat \<Rightarrow> nat \<Rightarrow> exn + string" where
  "substr s pos n = (if length s < pos then Inl out_of_range else Inr (take n (drop pos s)))"

text \<open>The argument of \<open>find_last_not_of\<close> and \<open>find_first_not_of\<close> in echo: space and tab.\<close>

definition blanks :: string where
  "blanks = [CHR '' '', CHR 0x09]"

section \<open>The environment: console, virtual filesystem, heap\<close>

datatype level = Info | Warn | Err

type_synonym message = "level \<times> string"

text \<open>
  The console of the host. \<open>init_console_handlers\<close> replaces \<open>console.log\<close> and
  \<open>console.error\<close> by a function that first calls \<open>globalThis.log(text, level)\<close> and then
  the function it replaced; \<open>console.warn\<close> is left alone. \<open>wrappers\<close> counts the layers
  installed so far, \<open>sink\<close> records the calls of \<open>globalThis.log\<close> (which the host is
  taken to define), \<open>screen\<close> what reaches the original console.
\<close>

record console =
  wrappers :: nat
  screen :: "message list"
  sink :: "message list"

definition emit :: "message \<Rightarrow> console \<Rightarrow> console" where
  "emit m c =
     c\<lparr>sink := sink c @ (if fst m = Warn then [] else replicate (wrappers c) m),
       screen := screen c @ [m]\<rparr>"

definition init_console_handlers :: "console \<Rightarrow> console" where
  "init_console_handlers c = c\<lparr>wrappers := Suc (wrappers c)\<rparr>"

text \<open>The commands below return the messages they emit, in order; \<open>deliver\<close> hands such a
  list to the console.\<close>

fun deliver :: "message list \<Rightarrow> console \<Rightarrow> console" where
  "deliver [] c = c"
| "deliver (m # ms) c = deliver ms (emit m c)"

text \<open>
  The filesystem is keyed by the path string handed to the C library (no normalisation,
  no working directory). A directory node carries the names \<open>readdir\<close> yields, in
  iteration order, \<open>.\<close> and \<open>..\<close> among them when the filesystem reports them; creating
  or removing a file does not touch the listing of its parent. \<open>wr_denied\<close> are the paths
  the system refuses to open for writing (missing parent, permissions), \<open>rd_fault\<close> the
  paths on which a read reports an I/O error, \<open>heap_avail\<close> the bytes \<open>malloc\<close> can
  still hand out. The storage of \<open>std::string\<close> objects is not charged to the heap, and a
  write to an open stream stores all its bytes.
\<close>

datatype node = File string | Dir "string list"

record world =
  nodes :: "string \<rightharpoonup> node"
  wr_denied :: "string set"
  rd_fault :: "string set"
  heap_avail :: nat

definition stat :: "string \<Rightarrow> world \<Rightarrow> node option" where
  "stat p w = (if p = [] then None else nodes w p)"

definition S_ISDIR :: "node \<Rightarrow> bool" where
  "S_ISDIR n = (case n of Dir es \<Rightarrow> True | File c \<Rightarrow> False)"

definition opendir :: "string \<Rightarrow> world \<Rightarrow> string list option" where
  "opendir p w = (case stat p w of Some (Dir es) \<Rightarrow> Some es | _ \<Rightarrow> None)"

text \<open>\<open>std::ifstream(p, binary | ate)\<close>: the stream is open iff \<open>p\<close> names a regular
  file or a directory; opening a directory for reading succeeds.\<close>

datatype stream = FileStream string | DirStream

definition ifstream_open :: "string \<Rightarrow> world \<Rightarrow> stream option" where
  "ifstream_open p w =
     (case stat p w of
        None \<Rightarrow> None
      | Some (File c) \<Rightarrow> Some (FileStream c)
      | Some (Dir es) \<Rightarrow> Some DirStream)"

text \<open>\<open>tellg()\<close> at the end of the stream: the byte count of a regular file; for a
  directory the largest file offset, \<open>2^63 - 1\<close>.\<close>

definition tellg :: "stream \<Rightarrow> nat" where
  "tellg s = (case s of FileStream c \<Rightarrow> length c | DirStream \<Rightarrow> 9223372036854775807)"

text \<open>\<open>std::string content(size, 0)\<close> with \<open>size = tellg()\<close>. The size of a regular file
  is taken to be a valid string length, like every size here; the offset reported for a
  directory is beyond \<open>max_size()\<close>, and the constructor throws \<open>std::length_error\<close>.\<close>

definition string_of_size :: "stream \<Rightarrow> exn + string" where
  "string_of_size s =
     (case s of
        FileStream c \<Rightarrow> Inr (replicate (tellg s) NUL)
      | DirStream \<Rightarrow> Inl length_error)"

text \<open>\<open>file.read(buf, n)\<close> after \<open>seekg(0)\<close>: the stream stays good iff all \<open>n\<close> bytes
  arrive; a request for no bytes touches nothing and leaves it good. A directory yields
  no bytes.\<close>

definition ifstream_read :: "string \<Rightarrow> nat \<Rightarrow> world \<Rightarrow> string option" where
  "ifstream_read p n w =
     (case ifstream_open p w of
        None \<Rightarrow> None
      | Some (FileStream c) \<Rightarrow>
          if 0 < n \<and> p \<in> rd_fault w \<or> length c < n then None else Some (take n c)
      | Some DirStream \<Rightarrow> if n = 0 then Some [] else None)"

text \<open>\<open>std::ofstream(p)\<close>: creates the file or truncates it.\<close>

definition ofstream_open :: "string \<Rightarrow> world \<Rightarrow> world option" where
  "ofstream_open p w =
     (if p = [] \<or> p \<in> wr_denied w then None
      else case nodes w p of
             Some (Dir es) \<Rightarrow> None
           | _ \<Rightarrow> Some (w\<lparr>nodes := (nodes w)(p \<mapsto> File [])\<rparr>))"

definition ofstream_write :: "string \<Rightarrow> string \<Rightarrow> world \<Rightarrow> world" where
  "ofstream_write p bytes w =
     (case nodes w p of
        Some (File c) \<Rightarrow> w\<lparr>nodes := (nodes w)(p \<mapsto> File (c @ bytes))\<rparr>
      | _ \<Rightarrow> w)"

text \<open>C \<open>remove\<close>: unlinks a file, or removes a directory that holds nothing but \<open>.\<close>
  and \<open>..\<close>.\<close>

definition remove_path :: "string \<Rightarrow> world \<Rightarrow> world option" where
  "remove_path p w =
     (case stat p w of
        None \<Rightarrow> None
      | Some (File c) \<Rightarrow> Some (w\<lparr>nodes := (nodes w)(p := None)\<rparr>)
      | Some (Dir es) \<Rightarrow>
          if set es \<subseteq> {''.'', ''..''} then Some (w\<lparr>nodes := (nodes w)(p := None)\<rparr>)
          else None)"

definition malloc :: "nat \<Rightarrow> world \<Rightarrow> world option" where
  "malloc n w = (if n \<le> heap_avail w then Some (w\<lparr>heap_avail := heap_avail w - n\<rparr>) else None)"

definition free_buf :: "nat \<Rightarrow> world \<Rightarrow> world" where
  "free_buf n w = w\<lparr>heap_avail := heap_avail w + n\<rparr>"

section \<open>Results of commands and boundary functions\<close>

text \<open>A command handler either returns its status or lets a C++ exception escape; in both
  cases it leaves behind the console messages it emitted and the filesystem it reached.\<close>

datatype outcome = Returned int | Thrown exn

type_synonym result = "outcome \<times> message list \<times> world"

section \<open>kernel.cpp: state and initialisation\<close>

datatype KernelState = BOOTING | RUNNING | PANIC | SHUTDOWN

text \<open>\<open>static_cast<int>\<close> of the enumeration: the declaration order.\<close>

fun state_code :: "KernelState \<Rightarrow> int" where
  "state_code BOOTING = 0"
| "state_code RUNNING = 1"
| "state_code PANIC = 2"
| "state_code SHUTDOWN = 3"

definition init :: "console \<Rightarrow> int \<times> console" where
  "init c =
     (let c1 = init_console_handlers c;
          c2 = emit (Info, ''Kernel initializing...'') c1;
          c3 = emit (Warn, ''This is an experimental WASM kernel'') c2
      in (state_code RUNNING, c3))"

definition get_version :: "string \<times> message list" where
  "get_version = (''0.1.0-wasm'', [(Info, ''Version requested'')])"

section \<open>commands/ls.cpp\<close>

text \<open>One iteration of the \<open>readdir\<close> loop: the message logged for entry \<open>e\<close> of the
  directory opened as \<open>path\<close>. \<open>path\<close> is not empty here, since an empty path does not
  open; \<open>d_name\<close> is read as a C string.\<close>

definition ls_entry :: "string \<Rightarrow> world \<Rightarrow> string \<Rightarrow> message" where
  "ls_entry path w e =
     (let full_path = (if last path \<noteq> CHR ''/'' then path @ ''/'' else path) @ c_str e
      in case stat (c_str full_path) w of
           Some st \<Rightarrow> (Info, (if S_ISDIR st then ''d'' else ''-'') @ '' '' @ c_str e)
         | None \<Rightarrow> (Info, c_str e))"

fun ls_loop :: "string \<Rightarrow> world \<Rightarrow> string list \<Rightarrow> message list" where
  "ls_loop path w [] = []"
| "ls_loop path w (e # es) = ls_entry path w e # ls_loop path w es"

definition ls :: "string \<Rightarrow> world \<Rightarrow> result" where
  "ls args w =
     (let path = (if args = [] then ''/'' else c_str args);
          hdr = [(Info, ''ls command executing''), (Info, ''Listing directory:''), (Info, path)]
      in case opendir path w of
           None \<Rightarrow> (Returned (- 1), hdr @ [(Err, ''Failed to open directory: ''), (Err, path)], w)
         | Some es \<Rightarrow> (Returned 0, hdr @ ls_loop path w es, w))"

section \<open>commands/cat.cpp\<close>

definition cat :: "string \<Rightarrow> world \<Rightarrow> result" where
  "cat args w =
     (if args = [] then (Returned (- 1), [(Err, ''Usage: cat <filename>'')], w)
      else case ifstream_open (c_str args) w of
             None \<Rightarrow> (Returned (- 1), [(Err, ''Failed to open file'')], w)
           | Some file \<Rightarrow>
               (let size = tellg file in
                case string_of_size file of
                  Inl x \<Rightarrow> (Thrown x, [], w)
                | Inr content0 \<Rightarrow>
                    (case ifstream_read (c_str args) size w of
                       None \<Rightarrow> (Returned (- 1), [(Err, ''Failed to read file'')], w)
                     | Some content \<Rightarrow> (Returned 0, [(Info, c_str content)], w))))"

section \<open>commands/echo.cpp\<close>

definition echo :: "string \<Rightarrow> world \<Rightarrow> result" where
  "echo args w =
     (let gt_pos = find_char args CHR ''>'' in
      if gt_pos \<noteq> npos then
        (case substr args 0 gt_pos of
           Inl x \<Rightarrow> (Thrown x, [], w)
         | Inr content0 \<Rightarrow>
        (case substr args (size_t_add gt_pos 1) npos of
           Inl x \<Rightarrow> (Thrown x, [], w)
         | Inr filename0 \<Rightarrow>
        (case substr content0 0 (size_t_add (find_last_not_of content0 blanks) 1) of
           Inl x \<Rightarrow> (Thrown x, [], w)
         | Inr content \<Rightarrow>
        (case substr filename0 (find_first_not_of filename0 blanks) npos of
           Inl x \<Rightarrow> (Thrown x, [], w)
         | Inr filename \<Rightarrow>
        (case ofstream_open (c_str filename) w of
           None \<Rightarrow> (Returned (- 1), [(Err, ''Failed to open file for writing'')], w)
         | Some w' \<Rightarrow> (Returned 0, [], ofstream_write (c_str filename) content w'))))))
      else (Returned 0, [(Info, c_str args)], w))"

section \<open>commands/rm.cpp\<close>

definition rm :: "string \<Rightarrow> world \<Rightarrow> result" where
  "rm args w =
     (if args = [] then (Returned (- 1), [(Err, ''Usage: rm <filename>'')], w)
      else case remove_path (c_str args) w of
             Some w' \<Rightarrow> (Returned 0, [], w')
           | None \<Rightarrow> (Returned (- 1), [(Err, ''Failed to delete file'')], w))"

section \<open>commands/execute.cpp\<close>

definition command_registry :: "(string \<times> (string \<Rightarrow> world \<Rightarrow> result)) list" where
  "command_registry = [(''ls'', ls), (''cat'', cat), (''echo'', echo), (''rm'', rm)]"

definition execute_command :: "string \<Rightarrow> world \<Rightarrow> result" where
  "execute_command command w =
     (let space_pos = find_char command CHR '' '' in
      case (if space_pos \<noteq> npos then substr command 0 space_pos else Inr command) of
        Inl x \<Rightarrow> (Thrown x, [], w)
      | Inr cmd \<Rightarrow>
     (case (if space_pos \<noteq> npos then substr command (size_t_add space_pos 1) npos else Inr []) of
        Inl x \<Rightarrow> (Thrown x, [], w)
      | Inr args \<Rightarrow>
     (case map_of command_registry cmd of
        None \<Rightarrow> (Returned (- 1), [(Err, ''Unknown command'')], w)
      | Some handler \<Rightarrow> handler args w)))"

section \<open>kernel.cpp: the boundary functions\<close>

text \<open>\<open>command\<close> is a pointer: \<open>None\<close> is the null pointer. The functions below have no
  path on which an exception is raised, so their \<open>try\<close> blocks never reach the handler
  and they return plain values; a returned buffer is \<open>None\<close> for the null pointer and
  otherwise the bytes of the allocation, terminator included. For a directory
  \<open>read_file\<close> asks for a buffer of the offset \<open>tellg\<close> reports plus one (on a 32-bit
  \<open>size_t\<close> the sum wraps to zero); whether or not the request is granted, the read that
  follows fails and the result is the null pointer.\<close>

definition execute :: "string option \<Rightarrow> world \<Rightarrow> result" where
  "execute command w =
     (case command of
        None \<Rightarrow> (Returned (- 1), [(Err, ''Empty or invalid command'')], w)
      | Some m \<Rightarrow>
          if c_str m \<noteq> [] then execute_command (c_str m) w
          else (Returned (- 1), [(Err, ''Empty or invalid command'')], w))"

definition write_file :: "string \<Rightarrow> string \<Rightarrow> world \<Rightarrow> int \<times> message list \<times> world" where
  "write_file path content w =
     (case ofstream_open (c_str path) w of
        None \<Rightarrow> (- 1, [(Err, ''Failed to open file for writing'')], w)
      | Some w' \<Rightarrow>
          (0, [(Info, ''File written successfully'')],
           ofstream_write (c_str path) (take (strlen content) content) w'))"

definition read_file :: "string \<Rightarrow> world \<Rightarrow> string option \<times> message list \<times> world" where
  "read_file path w =
     (case ifstream_open (c_str path) w of
        None \<Rightarrow> (None, [(Err, ''Failed to open file for reading'')], w)
      | Some file \<Rightarrow>
          (let size = tellg file in
           case malloc (size + 1) w of
             None \<Rightarrow> (None, [(Err, ''Failed to allocate memory'')], w)
           | Some w' \<Rightarrow>
               (case ifstream_read (c_str path) size w' of
                  None \<Rightarrow> (None, [(Err, ''Failed to read file'')], free_buf (size + 1) w')
                | Some bytes \<Rightarrow> (Some (bytes @ [NUL]), [], w'))))"

definition file_exists :: "string \<Rightarrow> world \<Rightarrow> int" where
  "file_exists path w = (if stat (c_str path) w \<noteq> None then 1 else 0)"

definition delete_file :: "string \<Rightarrow> world \<Rightarrow> int \<times> message list \<times> world" where
  "delete_file path w =
     (case remove_path (c_str path) w of
        Some w' \<Rightarrow> (0, [(Info, ''File deleted successfully'')], w')
      | None \<Rightarrow> (- 1, [(Err, ''Failed to delete file'')], w))"

text \<open>The \<open>readdir\<close> loop of \<open>list_directory\<close>, with \<open>result\<close> as accumulator.\<close>

fun list_loop :: "string list \<Rightarrow> string \<Rightarrow> string" where
  "list_loop [] result = result"
| "list_loop (e # es) result = list_loop es (result @ c_str e @ [CHR 0x0A])"

definition list_directory :: "string \<Rightarrow> world \<Rightarrow> string option \<times> message list \<times> world" where
  "list_directory path w =
     (case opendir (c_str path) w of
        None \<Rightarrow> (None, [(Err, ''Failed to open directory'')], w)
      | Some es \<Rightarrow>
          (let result = list_loop es [] in
           case malloc (length result + 1) w of
             None \<Rightarrow> (None, [(Err, ''Failed to allocate memory for directory listing'')], w)
           | Some w' \<Rightarrow> (Some (c_str result @ [NUL]), [], w')))"

section \<open>The contracts, in the specification's words\<close>

text \<open>Dispatcher: the name is the prefix before the first space (the whole line if there
  is none), the argument what follows that space (empty if there is none).\<close>

definition spec_name :: "string \<Rightarrow> string" where
  "spec_name line = takeWhile (\<lambda>c. c \<noteq> CHR '' '') line"

definition spec_argument :: "string \<Rightarrow> string" where
  "spec_argument line = drop 1 (dropWhile (\<lambda>c. c \<noteq> CHR '' '') line)"

text \<open>ls: the directory listed, the joined path of an entry (a separator is inserted only
  if the directory path does not already end in one) and the line logged for it.\<close>

definition spec_ls_path :: "string \<Rightarrow> string" where
  "spec_ls_path args = (if args = [] then ''/'' else c_str args)"

definition spec_join :: "string \<Rightarrow> string \<Rightarrow> string" where
  "spec_join dir name =
     (if dir \<noteq> [] \<and> last dir = CHR ''/'' then dir @ name else dir @ ''/'' @ name)"

definition spec_ls_line :: "string \<Rightarrow> world \<Rightarrow> string \<Rightarrow> string" where
  "spec_ls_line dir w name =
     (case stat (spec_join dir name) w of
        None \<Rightarrow> name
      | Some (Dir es) \<Rightarrow> ''d '' @ name
      | Some (File c) \<Rightarrow> ''- '' @ name)"

text \<open>list_directory: every name followed by one newline, in the given order.\<close>

definition spec_listing :: "string list \<Rightarrow> string" where
  "spec_listing names = concat (map (\<lambda>n. n @ [CHR 0x0A]) names)"

text \<open>echo: right-trim and left-trim of spaces and tabs.\<close>

definition is_blank :: "char \<Rightarrow> bool" where
  "is_blank c = (c = CHR '' '' \<or> c = CHR 0x09)"

definition spec_rtrim :: "string \<Rightarrow> string" where
  "spec_rtrim s = rev (dropWhile is_blank (rev s))"

definition spec_ltrim :: "string \<Rightarrow> string" where
  "spec_ltrim s = dropWhile is_blank s"

text \<open>ls: the three lines logged before the directory is opened.\<close>

definition ls_header :: "string \<Rightarrow> message list" where
  "ls_header p = [(Info, ''ls command executing''), (Info, ''Listing directory:''), (Info, p)]"

text \<open>Logging: some message of error level is among those emitted.\<close>

definition has_error :: "message list \<Rightarrow> bool" where
  "has_error msgs = (Err \<in> set (map fst msgs))"

section \<open>An example environment\<close>

text \<open>A root directory with a file, a subdirectory and a name that has no node behind it
  (\<open>ghost\<close>), a file with a null byte in it, an empty file, a file whose reads fail and a
  path that cannot be opened for writing.\<close>

definition demo_world :: world where
  "demo_world =
     \<lparr>nodes = [''/'' \<mapsto> Dir [''.'', ''..'', ''a.txt'', ''sub'', ''ghost''],
               ''/.'' \<mapsto> Dir [''.'', ''..'', ''a.txt'', ''sub'', ''ghost''],
               ''/..'' \<mapsto> Dir [''.'', ''..'', ''a.txt'', ''sub'', ''ghost''],
               ''/a.txt'' \<mapsto> File ''hi'',
               ''/sub'' \<mapsto> Dir [''.'', ''..''],
               ''/bin'' \<mapsto> File [CHR ''a'', CHR 0x00, CHR ''b''],
               ''/empty'' \<mapsto> File [],
               ''/bad'' \<mapsto> File ''xyz''],
      wr_denied = {''/ro''},
      rd_fault = {''/bad''},
      heap_avail = 64\<rparr>"

section \<open>Facts about C strings and searching\<close>

lemma c_str_no_NUL: "NUL \<notin> set (c_str s)"
  by (auto simp: c_str_def dest: set_takeWhileD)

lemma c_str_id: "NUL \<notin> set s \<Longrightarrow> c_str s = s"
  by (auto simp: c_str_def takeWhile_eq_all_conv)

lemma c_str_idem: "c_str (c_str s) = c_str s"
  by (rule c_str_id) (rule c_str_no_NUL)

lemma scan_first_eq:
  "scan_first P s i =
     (if \<exists>c\<in>set s. P c then i + length (takeWhile (\<lambda>c. \<not> P c) s) else npos)"
  by (induction s arbitrary: i) auto

lemma find_char_index:
  "ch \<in> set s \<Longrightarrow> find_char s ch = length (takeWhile (\<lambda>c. c \<noteq> ch) s)"
  by (simp add: find_char_def scan_first_eq)

lemma find_char_absent: "ch \<notin> set s \<Longrightarrow> find_char s ch = npos"
  by (simp add: find_char_def scan_first_eq)

lemma takeWhile_shorter: "x \<in> set xs \<Longrightarrow> \<not> P x \<Longrightarrow> length (takeWhile P xs) < length xs"
  by (induction xs) auto

lemma find_char_less: "ch \<in> set s \<Longrightarrow> find_char s ch < length s"
  by (simp add: find_char_index takeWhile_shorter)

lemma find_char_npos_iff: "length s < npos \<Longrightarrow> (find_char s ch = npos) = (ch \<notin> set s)"
  using find_char_less [of ch s] find_char_absent [of ch s] by auto

lemma substr_prefix:
  "ch \<in> set s \<Longrightarrow> substr s 0 (find_char s ch) = Inr (takeWhile (\<lambda>c. c \<noteq> ch) s)"
  by (simp add: substr_def find_char_index takeWhile_eq_take [symmetric])

lemma substr_suffix:
  assumes "ch \<in> set s" and "length s < npos"
  shows "substr s (size_t_add (find_char s ch) 1) npos =
           Inr (drop 1 (dropWhile (\<lambda>c. c \<noteq> ch) s))"
proof -
  let ?k = "length (takeWhile (\<lambda>c. c \<noteq> ch) s)"
  have lt: "?k < length s" using assms(1) by (simp add: takeWhile_shorter)
  with assms(2) have "?k + 1 < 4294967296" by (simp add: npos_def)
  then have wrap: "size_t_add (find_char s ch) 1 = Suc ?k"
    using assms(1) by (simp add: size_t_add_def find_char_index)
  have "substr s (Suc ?k) npos = Inr (drop (Suc ?k) s)"
    using lt assms(2) by (simp add: substr_def)
  also have "drop (Suc ?k) s = drop 1 (dropWhile (\<lambda>c. c \<noteq> ch) s)"
    by (simp add: dropWhile_eq_drop)
  finally show ?thesis unfolding wrap .
qed

section \<open>The dispatcher\<close>

lemma registry_lookup:
  "map_of command_registry n =
     (if n = ''ls'' then Some ls else if n = ''cat'' then Some cat
      else if n = ''echo'' then Some echo else if n = ''rm'' then Some rm else None)"
  by (simp add: command_registry_def)

lemma execute_command_split:
  assumes "length line < npos"
  shows "execute_command line w =
     (case map_of command_registry (spec_name line) of
        None \<Rightarrow> (Returned (- 1), [(Err, ''Unknown command'')], w)
      | Some handler \<Rightarrow> handler (spec_argument line) w)"
proof (cases "CHR '' '' \<in> set line")
  case True
  then have "find_char line CHR '' '' \<noteq> npos"
    using assms by (simp add: find_char_npos_iff)
  then show ?thesis
    unfolding spec_name_def spec_argument_def
    using substr_prefix [OF True] substr_suffix [OF True assms]
    by (simp add: execute_command_def cong: option.case_cong)
next
  case False
  have f: "find_char line CHR '' '' = npos" using False by (rule find_char_absent)
  have n: "spec_name line = line"
    using False by (auto simp: spec_name_def takeWhile_eq_all_conv)
  have d: "dropWhile (\<lambda>c. c \<noteq> CHR '' '') line = []"
    using False by auto
  have a: "spec_argument line = []"
    unfolding spec_argument_def d by simp
  show ?thesis unfolding n a by (simp add: execute_command_def f)
qed

text \<open>
  Claim C3. A raw line (a \<open>std::string\<close>, hence shorter than \<open>npos\<close>) is split at its
  first space character into the name before it and the argument after it; the name is
  compared for equality with \<open>ls\<close>, \<open>cat\<close>, \<open>echo\<close> and \<open>rm\<close>, the matching handler
  receives the argument and its result is the dispatcher's result; any other name logs
  the error \<open>Unknown command\<close>, returns \<open>-1\<close> and leaves the filesystem as it was.
\<close>

theorem dispatch_split_exact_match:
  assumes "length line < npos"
  shows "execute_command line w =
     (if spec_name line = ''ls'' then ls (spec_argument line) w
      else if spec_name line = ''cat'' then cat (spec_argument line) w
      else if spec_name line = ''echo'' then echo (spec_argument line) w
      else if spec_name line = ''rm'' then rm (spec_argument line) w
      else (Returned (- 1), [(Err, ''Unknown command'')], w))"
  using assms by (simp add: execute_command_split registry_lookup)

theorem dispatch_split_exact_match_witness:
  "length ''lsx /sub'' < npos \<and>
   execute_command ''lsx /sub'' demo_world
     = (Returned (- 1), [(Err, ''Unknown command'')], demo_world) \<and>
   execute_command ''rm  /a.txt'' demo_world = rm '' /a.txt'' demo_world"
  using dispatch_split_exact_match [of "''lsx /sub''" demo_world]
    dispatch_split_exact_match [of "''rm  /a.txt''" demo_world]
  by (simp add: npos_def spec_name_def spec_argument_def)

section \<open>Initialisation\<close>

lemma deliver_screen: "screen (deliver ms c) = screen c @ ms"
  by (induction ms arbitrary: c) (simp_all add: emit_def)

lemma deliver_wrappers: "wrappers (deliver ms c) = wrappers c"
  by (induction ms arbitrary: c) (simp_all add: emit_def)

text \<open>Each call of \<open>init\<close> adds a layer: after the second call a message reaches the sink
  twice.\<close>

lemma init_adds_wrapper: "wrappers (snd (init c)) = Suc (wrappers c)"
  by (simp add: init_def Let_def emit_def init_console_handlers_def)

lemma init_twice_mirrors_twice:
  "wrappers c = 0 \<Longrightarrow>
     sink (emit (Info, t) (snd (init (snd (init c)))))
       = sink (snd (init (snd (init c)))) @ [(Info, t), (Info, t)]"
  by (simp add: init_def Let_def emit_def init_console_handlers_def numeral_2_eq_2)

text \<open>
  Claim C7. \<open>init\<close> returns 1, the number of \<open>RUNNING\<close> in the declaration order
  \<open>BOOTING = 0\<close>, \<open>RUNNING = 1\<close>, \<open>PANIC = 2\<close>, \<open>SHUTDOWN = 3\<close>, whatever the console
  state it is called in, so also when it is called again after itself (the host's sink
  \<open>globalThis.log\<close> being defined, as the console above has it).
\<close>

theorem init_returns_running:
  "fst (init c) = 1 \<and> fst (init (snd (init c))) = 1 \<and>
   state_code RUNNING = 1 \<and>
   map state_code [BOOTING, RUNNING, PANIC, SHUTDOWN] = [0, 1, 2, 3]"
  by (simp add: init_def Let_def)

section \<open>ls\<close>

lemma last_c_str_join:
  "p \<noteq> [] \<Longrightarrow> (if last p \<noteq> CHR ''/'' then p @ ''/'' else p) @ n = spec_join p n"
  by (simp add: spec_join_def)

lemma ls_entry_spec:
  assumes "p \<noteq> []" and "NUL \<notin> set p"
  shows "ls_entry p w e = (Info, spec_ls_line p w (c_str e))"
proof -
  have "NUL \<notin> set (spec_join p (c_str e))"
    using assms(2) c_str_no_NUL [of e] by (simp add: spec_join_def NUL_def)
  then have "c_str (spec_join p (c_str e)) = spec_join p (c_str e)"
    by (rule c_str_id)
  then show ?thesis
    using assms(1)
    by (simp add: ls_entry_def last_c_str_join spec_ls_line_def S_ISDIR_def
        split: option.split node.split)
qed

lemma ls_loop_map:
  "p \<noteq> [] \<Longrightarrow> NUL \<notin> set p \<Longrightarrow>
   ls_loop p w es = map (\<lambda>e. (Info, spec_ls_line p w (c_str e))) es"
  by (induction es) (simp_all add: ls_entry_spec)

lemma spec_ls_path_no_NUL: "NUL \<notin> set (spec_ls_path args)"
  using c_str_no_NUL [of args] by (simp add: spec_ls_path_def NUL_def)

lemma opendir_nonempty: "opendir p w = Some es \<Longrightarrow> p \<noteq> []"
  by (auto simp: opendir_def stat_def)

lemma ls_eq:
  "ls args w =
     (case opendir (spec_ls_path args) w of
        None \<Rightarrow> (Returned (- 1),
                 ls_header (spec_ls_path args)
                 @ [(Err, ''Failed to open directory: ''), (Err, spec_ls_path args)], w)
      | Some es \<Rightarrow> (Returned 0,
                 ls_header (spec_ls_path args)
                 @ map (\<lambda>e. (Info, spec_ls_line (spec_ls_path args) w (c_str e))) es, w))"
proof (cases "opendir (spec_ls_path args) w")
  case None
  then show ?thesis
    by (simp add: ls_def Let_def spec_ls_path_def ls_header_def)
next
  case (Some es)
  then have "spec_ls_path args \<noteq> []" by (rule opendir_nonempty)
  then have "ls_loop (spec_ls_path args) w es =
      map (\<lambda>e. (Info, spec_ls_line (spec_ls_path args) w (c_str e))) es"
    using spec_ls_path_no_NUL by (rule ls_loop_map)
  then show ?thesis
    using Some by (simp add: ls_def Let_def spec_ls_path_def ls_header_def)
qed

text \<open>
  Claim C6. \<open>ls\<close> lists \<open>/\<close> when its argument is empty. It returns \<open>-1\<close> exactly
  when the path does not open as a directory and \<open>0\<close> otherwise, whatever happens to
  single entries, and leaves the filesystem alone. After its three header lines it logs,
  for every entry the iteration yields (\<open>.\<close> and \<open>..\<close> like any other) and in that order,
  one line: \<open>d name\<close> when the joined path is a directory, \<open>- name\<close> when it is
  something else, and the bare name when the joined path cannot be queried.
\<close>

theorem ls_lists_every_entry:
  "ls [] w = ls ''/'' w \<and>
   (fst (ls args w) = Returned (- 1)) = (opendir (spec_ls_path args) w = None) \<and>
   (fst (ls args w) = Returned 0) = (opendir (spec_ls_path args) w \<noteq> None) \<and>
   snd (snd (ls args w)) = w \<and>
   (case opendir (spec_ls_path args) w of
      None \<Rightarrow> \<exists>t. (Err, t) \<in> set (fst (snd (ls args w)))
    | Some es \<Rightarrow>
        fst (snd (ls args w)) =
          ls_header (spec_ls_path args)
          @ map (\<lambda>e. (Info, spec_ls_line (spec_ls_path args) w (c_str e))) es)"
proof -
  have "ls [] w = ls ''/'' w"
    by (simp add: ls_def c_str_def NUL_def)
  then show ?thesis
    by (auto simp: ls_eq split: option.split)
qed

theorem ls_lists_every_entry_witness:
  "fst (ls [] demo_world) = Returned 0 \<and>
   fst (snd (ls [] demo_world)) =
      [(Info, ''ls command executing''), (Info, ''Listing directory:''), (Info, ''/''),
       (Info, ''d .''), (Info, ''d ..''), (Info, ''- a.txt''), (Info, ''d sub''),
       (Info, ''ghost'')] \<and>
   fst (ls ''/a.txt'' demo_world) = Returned (- 1)"
proof -
  have root: "opendir (spec_ls_path []) demo_world
      = Some [''.'', ''..'', ''a.txt'', ''sub'', ''ghost'']"
    by (simp add: spec_ls_path_def opendir_def stat_def demo_world_def)
  have nodir: "opendir (spec_ls_path ''/a.txt'') demo_world = None"
    by (simp add: spec_ls_path_def opendir_def stat_def demo_world_def c_str_def NUL_def)
  have lines: "map (\<lambda>e. (Info, spec_ls_line ''/'' demo_world (c_str e)))
        [''.'', ''..'', ''a.txt'', ''sub'', ''ghost'']
      = [(Info, ''d .''), (Info, ''d ..''), (Info, ''- a.txt''), (Info, ''d sub''),
         (Info, ''ghost'')]"
    by (simp add: spec_ls_line_def spec_join_def stat_def demo_world_def c_str_def NUL_def)
  show ?thesis
    using ls_lists_every_entry [of demo_world "[]"]
      ls_lists_every_entry [of demo_world "''/a.txt''"] lines
    unfolding root nodir
    by (simp add: ls_header_def spec_ls_path_def)
qed

section \<open>list_directory\<close>

lemma list_loop_acc: "list_loop es acc = acc @ spec_listing (map c_str es)"
  by (induction es arbitrary: acc) (simp_all add: spec_listing_def)

lemma spec_listing_no_NUL: "NUL \<notin> set (spec_listing (map c_str es))"
  using c_str_no_NUL by (auto simp: spec_listing_def NUL_def)

lemma list_directory_eq:
  "list_directory path w =
     (case opendir (c_str path) w of
        None \<Rightarrow> (None, [(Err, ''Failed to open directory'')], w)
      | Some es \<Rightarrow>
          (case malloc (length (spec_listing (map c_str es)) + 1) w of
             None \<Rightarrow> (None, [(Err, ''Failed to allocate memory for directory listing'')], w)
           | Some w' \<Rightarrow> (Some (spec_listing (map c_str es) @ [NUL]), [], w')))"
  by (simp add: list_directory_def Let_def list_loop_acc c_str_id [OF spec_listing_no_NUL]
      split: option.split)

text \<open>
  Claim C9. \<open>list_directory\<close> returns the null pointer exactly when the directory does
  not open or the buffer cannot be allocated. Otherwise the buffer holds the name of every
  entry the iteration yields (names are C strings; \<open>.\<close> and \<open>..\<close> are entries like any
  other), each followed by one newline, in iteration order, and then the terminating
  null byte. No file or directory is changed.
\<close>

theorem list_directory_buffer:
  "(fst (list_directory path w) = None) =
     (case opendir (c_str path) w of
        None \<Rightarrow> True
      | Some es \<Rightarrow> malloc (length (spec_listing (map c_str es)) + 1) w = None) \<and>
   (case opendir (c_str path) w of
      None \<Rightarrow> fst (list_directory path w) = None
    | Some es \<Rightarrow>
        fst (list_directory path w) =
          (if malloc (length (spec_listing (map c_str es)) + 1) w = None then None
           else Some (spec_listing (map c_str es) @ [NUL]))) \<and>
   nodes (snd (snd (list_directory path w))) = nodes w"
  by (auto simp: list_directory_eq malloc_def split: option.split)

theorem list_directory_buffer_witness:
  "fst (list_directory ''/sub'' demo_world)
     = Some [CHR ''.'', CHR 0x0A, CHR ''.'', CHR ''.'', CHR 0x0A, CHR 0x00] \<and>
   fst (list_directory ''/a.txt'' demo_world) = None \<and>
   fst (list_directory ''/sub'' (demo_world\<lparr>heap_avail := 5\<rparr>)) = None"
proof -
  have dsub: "opendir (c_str ''/sub'') demo_world = Some [''.'', ''..'']"
    by (simp add: opendir_def stat_def demo_world_def c_str_def NUL_def)
  have dsub5: "opendir (c_str ''/sub'') (demo_world\<lparr>heap_avail := 5\<rparr>) = Some [''.'', ''..'']"
    by (simp add: opendir_def stat_def demo_world_def c_str_def NUL_def)
  have nodir: "opendir (c_str ''/a.txt'') demo_world = None"
    by (simp add: opendir_def stat_def demo_world_def c_str_def NUL_def)
  have listing: "spec_listing (map c_str [''.'', ''..''])
      = [CHR ''.'', CHR 0x0A, CHR ''.'', CHR ''.'', CHR 0x0A]"
    by (simp add: spec_listing_def c_str_def NUL_def)
  have heap: "heap_avail demo_world = 64"
    by (simp add: demo_world_def)
  show ?thesis
    using list_directory_buffer [of "''/sub''" demo_world]
      list_directory_buffer [of "''/a.txt''" demo_world]
      list_directory_buffer [of "''/sub''" "demo_world\<lparr>heap_avail := 5\<rparr>"]
      listing
    unfolding dsub dsub5 nodir
    by (simp add: malloc_def heap NUL_def)
qed

section \<open>write_file and read_file\<close>

lemma take_strlen: "take (strlen c) c = c_str c"
  by (simp add: strlen_def c_str_def takeWhile_eq_take [symmetric])

lemma ofstream_open_nodes:
  "ofstream_open p w = Some w' \<Longrightarrow>
     p \<noteq> [] \<and> w' = w\<lparr>nodes := (nodes w)(p \<mapsto> File [])\<rparr>"
  by (auto simp: ofstream_open_def split: if_splits option.splits node.splits)

lemma write_file_eq:
  "write_file path content w =
     (case ofstream_open (c_str path) w of
        None \<Rightarrow> (- 1, [(Err, ''Failed to open file for writing'')], w)
      | Some w' \<Rightarrow>
          (0, [(Info, ''File written successfully'')],
           w\<lparr>nodes := (nodes w)(c_str path \<mapsto> File (c_str content))\<rparr>))"
  by (auto simp: write_file_def take_strlen ofstream_write_def
      dest!: ofstream_open_nodes split: option.split)

lemma write_file_status:
  "fst (write_file path content w) = (if ofstream_open (c_str path) w = None then - 1 else 0)"
  by (simp add: write_file_eq split: option.split)

lemma write_file_success:
  assumes "fst (write_file path content w) = 0"
  shows "c_str path \<noteq> []"
    and "snd (snd (write_file path content w))
           = w\<lparr>nodes := (nodes w)(c_str path \<mapsto> File (c_str content))\<rparr>"
proof -
  from assms obtain w' where o: "ofstream_open (c_str path) w = Some w'"
    by (auto simp: write_file_status split: if_splits)
  then show "c_str path \<noteq> []" by (auto dest: ofstream_open_nodes)
  from o show "snd (snd (write_file path content w))
           = w\<lparr>nodes := (nodes w)(c_str path \<mapsto> File (c_str content))\<rparr>"
    by (simp add: write_file_eq)
qed

lemma read_file_eq:
  "read_file path w =
     (case ifstream_open (c_str path) w of
        None \<Rightarrow> (None, [(Err, ''Failed to open file for reading'')], w)
      | Some (FileStream c) \<Rightarrow>
          if heap_avail w < length c + 1 then (None, [(Err, ''Failed to allocate memory'')], w)
          else if c \<noteq> [] \<and> c_str path \<in> rd_fault w
               then (None, [(Err, ''Failed to read file'')], w)
               else (Some (c @ [NUL]), [], w\<lparr>heap_avail := heap_avail w - (length c + 1)\<rparr>)
      | Some DirStream \<Rightarrow>
          if heap_avail w < tellg DirStream + 1
          then (None, [(Err, ''Failed to allocate memory'')], w)
          else (None, [(Err, ''Failed to read file'')], w))"
proof (cases "stat (c_str path) w")
  case None
  then show ?thesis by (simp add: read_file_def ifstream_open_def)
next
  case (Some n)
  show ?thesis
  proof (cases n)
    case (File c)
    with Some show ?thesis
      by (auto simp: read_file_def Let_def malloc_def free_buf_def ifstream_read_def
          ifstream_open_def stat_def tellg_def)
  next
    case (Dir es)
    with Some show ?thesis
      by (auto simp: read_file_def Let_def malloc_def free_buf_def ifstream_read_def
          ifstream_open_def stat_def tellg_def)
  qed
qed

lemma write_then_read:
  assumes "fst (write_file p c w) = 0"
  shows "fst (read_file p (snd (snd (write_file p c w)))) =
           (if malloc (strlen c + 1) w = None \<or> (c_str c \<noteq> [] \<and> c_str p \<in> rd_fault w)
            then None else Some (c_str c @ [NUL]))"
    and "nodes (snd (snd (write_file p c w))) (c_str p) = Some (File (c_str c))"
    and "NUL \<notin> set c \<Longrightarrow> c_str c = c"
proof -
  let ?w1 = "snd (snd (write_file p c w))"
  note w1 = write_file_success [OF assms]
  have o: "ifstream_open (c_str p) ?w1 = Some (FileStream (c_str c))"
    using w1 by (simp add: ifstream_open_def stat_def)
  show "fst (read_file p ?w1) =
           (if malloc (strlen c + 1) w = None \<or> (c_str c \<noteq> [] \<and> c_str p \<in> rd_fault w)
            then None else Some (c_str c @ [NUL]))"
    using o w1(2) by (simp add: read_file_eq malloc_def strlen_def)
  show "nodes ?w1 (c_str p) = Some (File (c_str c))"
    using w1(2) by simp
  show "NUL \<notin> set c \<Longrightarrow> c_str c = c" by (rule c_str_id)
qed

text \<open>
  Claim C10. The null pointer comes back from \<open>read_file\<close> only when the file does not
  open, the buffer cannot be allocated or the read fails. In particular, for an existing
  file of zero bytes the read of zero bytes cannot fail, and the result is a fresh buffer
  holding just the terminating null byte, unless even that one byte cannot be allocated.
\<close>

theorem read_file_null_reserved:
  "(fst (read_file path w) = None) =
     (ifstream_open (c_str path) w = None \<or>
      (\<exists>s. ifstream_open (c_str path) w = Some s \<and>
           (malloc (tellg s + 1) w = None \<or>
            ifstream_read (c_str path) (tellg s) w = None))) \<and>
   (ifstream_open (c_str path) w = Some (FileStream []) \<longrightarrow>
      ifstream_read (c_str path) 0 w = Some [] \<and>
      fst (read_file path w) = (if malloc 1 w = None then None else Some [NUL]))"
proof (cases "ifstream_open (c_str path) w")
  case None
  then show ?thesis by (simp add: read_file_eq)
next
  case (Some s)
  show ?thesis
  proof (cases s)
    case (FileStream c)
    with Some show ?thesis
      by (cases c) (simp_all add: read_file_eq malloc_def ifstream_read_def tellg_def)
  next
    case DirStream
    with Some show ?thesis
      by (simp add: read_file_eq malloc_def ifstream_read_def tellg_def)
  qed
qed

theorem read_file_null_reserved_witness:
  "fst (read_file ''/empty'' demo_world) = Some [CHR 0x00] \<and>
   fst (read_file ''/empty'' (demo_world\<lparr>heap_avail := 0\<rparr>)) = None \<and>
   fst (read_file ''/nope'' demo_world) = None \<and>
   fst (read_file ''/bad'' demo_world) = None \<and>
   fst (read_file ''/sub'' demo_world) = None"
proof -
  have o: "ifstream_open (c_str ''/empty'') demo_world = Some (FileStream [])"
    "ifstream_open (c_str ''/empty'') (demo_world\<lparr>heap_avail := 0\<rparr>) = Some (FileStream [])"
    "ifstream_open (c_str ''/nope'') demo_world = None"
    "ifstream_open (c_str ''/bad'') demo_world = Some (FileStream ''xyz'')"
    "ifstream_open (c_str ''/sub'') demo_world = Some DirStream"
    by (simp_all add: ifstream_open_def stat_def demo_world_def c_str_def NUL_def)
  have r: "ifstream_read (c_str ''/bad'') (tellg (FileStream ''xyz'')) demo_world = None"
    "ifstream_read (c_str ''/sub'') (tellg DirStream) demo_world = None"
    by (simp_all add: ifstream_read_def ifstream_open_def stat_def demo_world_def c_str_def
        NUL_def tellg_def)
  have h: "heap_avail demo_world = 64" by (simp add: demo_world_def)
  show ?thesis
    using read_file_null_reserved [of "''/empty''" demo_world]
      read_file_null_reserved [of "''/empty''" "demo_world\<lparr>heap_avail := 0\<rparr>"]
      read_file_null_reserved [of "''/nope''" demo_world]
      read_file_null_reserved [of "''/bad''" demo_world]
      read_file_null_reserved [of "''/sub''" demo_world] r
    unfolding o
    by (simp add: malloc_def h NUL_def)
qed

text \<open>
  Claim C2, amended. After a successful \<open>write_file p c\<close> the file holds \<open>c\<close> up to its
  first null byte (all of \<open>c\<close> when it has none), and \<open>read_file p\<close> returns a buffer
  with exactly these bytes and a terminating null byte, except that it returns the null
  pointer when the buffer of that size cannot be allocated or the read reports an error.
\<close>

theorem write_then_read_back:
  assumes "fst (write_file p c w) = 0"
  shows "nodes (snd (snd (write_file p c w))) (c_str p) = Some (File (c_str c)) \<and>
         fst (read_file p (snd (snd (write_file p c w)))) =
           (if malloc (strlen c + 1) w = None \<or> (c_str c \<noteq> [] \<and> c_str p \<in> rd_fault w)
            then None else Some (c_str c @ [NUL])) \<and>
         c_str c = takeWhile (\<lambda>b. b \<noteq> NUL) c \<and>
         (NUL \<notin> set c \<longrightarrow> c_str c = c)"
  using write_then_read [OF assms] by (simp add: c_str_def)

theorem write_then_read_back_witness:
  "fst (write_file ''/new.txt'' ''hello'' demo_world) = 0 \<and>
   fst (read_file ''/new.txt'' (snd (snd (write_file ''/new.txt'' ''hello'' demo_world))))
     = Some [CHR ''h'', CHR ''e'', CHR ''l'', CHR ''l'', CHR ''o'', CHR 0x00] \<and>
   fst (write_file ''/new.bin'' [CHR ''a'', CHR 0x00, CHR ''b''] demo_world) = 0 \<and>
   fst (read_file ''/new.bin''
         (snd (snd (write_file ''/new.bin'' [CHR ''a'', CHR 0x00, CHR ''b''] demo_world))))
     = Some [CHR ''a'', CHR 0x00]"
proof -
  have ok: "fst (write_file ''/new.txt'' ''hello'' demo_world) = 0"
    "fst (write_file ''/new.bin'' [CHR ''a'', CHR 0x00, CHR ''b''] demo_world) = 0"
    by (simp_all add: write_file_status ofstream_open_def demo_world_def c_str_def NUL_def)
  have h: "heap_avail demo_world = 64" "rd_fault demo_world = {''/bad''}"
    by (simp_all add: demo_world_def)
  show ?thesis
    using write_then_read_back [OF ok(1)] write_then_read_back [OF ok(2)] ok
    by (simp add: malloc_def strlen_def h c_str_def NUL_def)
qed

text \<open>Claim C2 as stated fails: with two bytes of heap left, \<open>write_file\<close> of \<open>hi\<close>
  succeeds and the \<open>read_file\<close> that follows returns the null pointer.\<close>

theorem write_then_read_null_counterexample:
  "fst (write_file ''/f'' ''hi'' (demo_world\<lparr>heap_avail := 2\<rparr>)) = 0 \<and>
   fst (read_file ''/f'' (snd (snd (write_file ''/f'' ''hi'' (demo_world\<lparr>heap_avail := 2\<rparr>)))))
     = None"
  by (simp add: write_file_eq read_file_eq ofstream_open_def ifstream_open_def stat_def
      demo_world_def c_str_def NUL_def)

section \<open>cat\<close>

lemma cat_eq:
  "cat args w =
     (if args = [] then (Returned (- 1), [(Err, ''Usage: cat <filename>'')], w)
      else case ifstream_open (c_str args) w of
             None \<Rightarrow> (Returned (- 1), [(Err, ''Failed to open file'')], w)
           | Some DirStream \<Rightarrow> (Thrown length_error, [], w)
           | Some (FileStream c) \<Rightarrow>
               if ifstream_read (c_str args) (length c) w = None
               then (Returned (- 1), [(Err, ''Failed to read file'')], w)
               else (Returned 0, [(Info, c_str c)], w))"
  by (auto simp: cat_def Let_def ifstream_read_def string_of_size_def tellg_def
      split: option.split stream.split)

text \<open>On a directory \<open>cat\<close> does not return: the stream opens, the size it reports is no
  string length, and the exception of the constructor is not caught.\<close>

lemma cat_directory_throws:
  "args \<noteq> [] \<Longrightarrow> ifstream_open (c_str args) w = Some DirStream \<Longrightarrow>
     cat args w = (Thrown length_error, [], w)"
  by (simp add: cat_eq)

lemma cat_directory_example: "cat ''/sub'' demo_world = (Thrown length_error, [], demo_world)"
  by (simp add: cat_eq ifstream_open_def stat_def demo_world_def c_str_def NUL_def)

text \<open>
  Claim C5, amended. For an argument that does not name a directory, \<open>cat\<close> returns \<open>-1\<close>
  exactly when the argument is empty (logging the usage message), the file does not open
  (logging that), or the read of as many bytes as the file has does not succeed (logging
  that). Otherwise the buffer has the file's length, the whole file is read into it,
  \<open>cat\<close> returns \<open>0\<close>, changes nothing and logs one message: the content up to its first
  null byte, which is the full content when it has none.
\<close>

theorem cat_logs_c_string:
  assumes "ifstream_open (c_str args) w \<noteq> Some DirStream"
  shows
   "(fst (cat args w) = Returned (- 1)) =
      (args = [] \<or>
       (case ifstream_open (c_str args) w of
          None \<Rightarrow> True
        | Some s \<Rightarrow> ifstream_read (c_str args) (tellg s) w = None)) \<and>
    (args = [] \<longrightarrow> cat args w = (Returned (- 1), [(Err, ''Usage: cat <filename>'')], w)) \<and>
    (args \<noteq> [] \<and> ifstream_open (c_str args) w = None \<longrightarrow>
       cat args w = (Returned (- 1), [(Err, ''Failed to open file'')], w)) \<and>
    (args \<noteq> [] \<and>
     (\<exists>s. ifstream_open (c_str args) w = Some s \<and>
          ifstream_read (c_str args) (tellg s) w = None) \<longrightarrow>
       cat args w = (Returned (- 1), [(Err, ''Failed to read file'')], w)) \<and>
    (fst (cat args w) \<noteq> Returned (- 1) \<longrightarrow>
       (\<exists>c. ifstream_open (c_str args) w = Some (FileStream c) \<and>
            string_of_size (FileStream c) = Inr (replicate (length c) NUL) \<and>
            ifstream_read (c_str args) (length c) w = Some c \<and>
            cat args w = (Returned 0, [(Info, takeWhile (\<lambda>b. b \<noteq> NUL) c)], w) \<and>
            (NUL \<notin> set c \<longrightarrow> cat args w = (Returned 0, [(Info, c)], w))))"
proof (cases "ifstream_open (c_str args) w")
  case None
  then show ?thesis by (simp add: cat_eq)
next
  case (Some s)
  with assms obtain c where s: "s = FileStream c" by (cases s) auto
  show ?thesis
    using Some
    by (auto simp: s cat_eq ifstream_read_def string_of_size_def tellg_def c_str_def
        takeWhile_eq_all_conv split: if_splits)
qed

theorem cat_logs_c_string_witness:
  "cat ''/a.txt'' demo_world = (Returned 0, [(Info, ''hi'')], demo_world) \<and>
   cat ''/bin'' demo_world = (Returned 0, [(Info, ''a'')], demo_world) \<and>
   cat ''/bad'' demo_world = (Returned (- 1), [(Err, ''Failed to read file'')], demo_world) \<and>
   cat ''/nope'' demo_world = (Returned (- 1), [(Err, ''Failed to open file'')], demo_world) \<and>
   cat [] demo_world = (Returned (- 1), [(Err, ''Usage: cat <filename>'')], demo_world)"
proof -
  have o: "ifstream_open (c_str ''/a.txt'') demo_world = Some (FileStream ''hi'')"
    "ifstream_open (c_str ''/bin'') demo_world
       = Some (FileStream [CHR ''a'', CHR 0x00, CHR ''b''])"
    "ifstream_open (c_str ''/bad'') demo_world = Some (FileStream ''xyz'')"
    "ifstream_open (c_str ''/nope'') demo_world = None"
    "ifstream_open (c_str []) demo_world = None"
    by (simp_all add: ifstream_open_def stat_def demo_world_def c_str_def NUL_def)
  have r: "ifstream_read (c_str ''/a.txt'') (tellg (FileStream ''hi'')) demo_world = Some ''hi''"
    "ifstream_read (c_str ''/bin'') (tellg (FileStream [CHR ''a'', CHR 0x00, CHR ''b'']))
       demo_world = Some [CHR ''a'', CHR 0x00, CHR ''b'']"
    "ifstream_read (c_str ''/bad'') (tellg (FileStream ''xyz'')) demo_world = None"
    by (simp_all add: ifstream_read_def ifstream_open_def stat_def demo_world_def c_str_def
        NUL_def tellg_def)
  have nodir: "ifstream_open (c_str ''/a.txt'') demo_world \<noteq> Some DirStream"
    "ifstream_open (c_str ''/bin'') demo_world \<noteq> Some DirStream"
    "ifstream_open (c_str ''/bad'') demo_world \<noteq> Some DirStream"
    "ifstream_open (c_str ''/nope'') demo_world \<noteq> Some DirStream"
    "ifstream_open (c_str []) demo_world \<noteq> Some DirStream"
    by (simp_all add: o)
  have a: "cat ''/a.txt'' demo_world = (Returned 0, [(Info, ''hi'')], demo_world)"
    using cat_logs_c_string [OF nodir(1)] r(1) unfolding o by (auto simp: NUL_def)
  have b: "cat ''/bin'' demo_world = (Returned 0, [(Info, ''a'')], demo_world)"
    using cat_logs_c_string [OF nodir(2)] r(2) unfolding o by (auto simp: NUL_def)
  have c: "cat ''/bad'' demo_world
      = (Returned (- 1), [(Err, ''Failed to read file'')], demo_world)"
    using cat_logs_c_string [OF nodir(3)] r(3) unfolding o by simp
  have d: "cat ''/nope'' demo_world
      = (Returned (- 1), [(Err, ''Failed to open file'')], demo_world)"
    using cat_logs_c_string [OF nodir(4)] unfolding o by simp
  have e: "cat [] demo_world
      = (Returned (- 1), [(Err, ''Usage: cat <filename>'')], demo_world)"
    using cat_logs_c_string [OF nodir(5)] by simp
  from a b c d e show ?thesis by (intro conjI)
qed

text \<open>Claim C5 as stated fails: for a file holding \<open>a\<close>, a null byte and \<open>b\<close>, \<open>cat\<close>
  returns \<open>0\<close> and the message logged is \<open>a\<close>, not the full content.\<close>

theorem cat_full_content_counterexample:
  "ifstream_open ''/bin'' demo_world = Some (FileStream [CHR ''a'', CHR 0x00, CHR ''b'']) \<and>
   fst (cat ''/bin'' demo_world) = Returned 0 \<and>
   fst (snd (cat ''/bin'' demo_world)) = [(Info, ''a'')] \<and>
   fst (snd (cat ''/bin'' demo_world)) \<noteq> [(Info, [CHR ''a'', CHR 0x00, CHR ''b''])]"
  by (simp add: cat_eq ifstream_read_def ifstream_open_def stat_def demo_world_def c_str_def
      NUL_def)

section \<open>echo\<close>

lemma is_blank_blanks: "(c \<notin> set blanks) = (\<not> is_blank c)"
  by (auto simp: blanks_def is_blank_def)

lemma scan_last_snoc:
  "scan_last P (xs @ [x]) i f = (if P x then i + length xs else scan_last P xs i f)"
  by (induction xs arbitrary: i f) auto

lemma scan_last_range:
  "scan_last P s i f = f \<or> (i \<le> scan_last P s i f \<and> scan_last P s i f < i + length s)"
proof (induction s rule: rev_induct)
  case Nil
  then show ?case by simp
next
  case (snoc x xs)
  then show ?case by (auto simp: scan_last_snoc)
qed

lemma rtrim_by_scan:
  assumes "length s < npos"
  shows "take (size_t_add (scan_last (\<lambda>c. \<not> is_blank c) s 0 npos) 1) s = spec_rtrim s"
  using assms
proof (induction s rule: rev_induct)
  case Nil
  then show ?case by (simp add: spec_rtrim_def)
next
  case (snoc x xs)
  show ?case
  proof (cases "is_blank x")
    case False
    have "size_t_add (length xs) 1 = Suc (length xs)"
      using snoc.prems by (simp add: size_t_add_def npos_def)
    then show ?thesis
      using False by (simp add: scan_last_snoc spec_rtrim_def)
  next
    case True
    let ?r = "scan_last (\<lambda>c. \<not> is_blank c) xs 0 npos"
    have "size_t_add ?r 1 \<le> length xs"
      using scan_last_range [of "\<lambda>c. \<not> is_blank c" xs 0 npos] snoc.prems
      by (auto simp: size_t_add_def npos_def)
    then have "take (size_t_add ?r 1) (xs @ [x]) = take (size_t_add ?r 1) xs"
      by simp
    moreover have "take (size_t_add ?r 1) xs = spec_rtrim xs"
      using snoc.IH snoc.prems by simp
    ultimately show ?thesis
      using True by (simp add: scan_last_snoc spec_rtrim_def)
  qed
qed

lemma content_trim:
  "length s < npos \<Longrightarrow>
     substr s 0 (size_t_add (find_last_not_of s blanks) 1) = Inr (spec_rtrim s)"
  using rtrim_by_scan [of s]
  by (simp add: substr_def find_last_not_of_def is_blank_blanks)

lemma filename_trim:
  assumes "length s < npos"
  shows "substr s (find_first_not_of s blanks) npos =
           (if \<forall>c\<in>set s. is_blank c then Inl out_of_range else Inr (spec_ltrim s))"
proof (cases "\<forall>c\<in>set s. is_blank c")
  case True
  then have "find_first_not_of s blanks = npos"
    by (simp add: find_first_not_of_def scan_first_eq is_blank_blanks)
  then show ?thesis using True assms by (simp add: substr_def)
next
  case False
  then obtain c where c: "c \<in> set s" "\<not> is_blank c" by blast
  let ?k = "length (takeWhile is_blank s)"
  have k: "find_first_not_of s blanks = ?k"
    using False by (auto simp: find_first_not_of_def scan_first_eq is_blank_blanks)
  have "?k < length s" using c by (rule takeWhile_shorter)
  moreover have "drop ?k s = dropWhile is_blank s" by (simp add: dropWhile_eq_drop)
  moreover have "length (dropWhile is_blank s) \<le> npos"
    using assms length_dropWhile_le [of is_blank s] by simp
  ultimately show ?thesis
    using False by (simp add: substr_def k spec_ltrim_def)
qed

text \<open>What \<open>echo\<close> does on every argument: without \<open>>\<close> it logs the argument; with a
  redirect whose target is blank it throws; otherwise the right-trimmed text before the
  first \<open>>\<close> replaces the content of the file named by the left-trimmed text after
  it, silently, or the open fails with an error message and \<open>-1\<close>.\<close>

lemma echo_eq:
  assumes "length args < npos"
  shows "echo args w =
     (if CHR ''>'' \<notin> set args then (Returned 0, [(Info, c_str args)], w)
      else if \<forall>c\<in>set (drop 1 (dropWhile (\<lambda>c. c \<noteq> CHR ''>'') args)). is_blank c
      then (Thrown out_of_range, [], w)
      else
        (case ofstream_open
                (c_str (spec_ltrim (drop 1 (dropWhile (\<lambda>c. c \<noteq> CHR ''>'') args)))) w of
           None \<Rightarrow> (Returned (- 1), [(Err, ''Failed to open file for writing'')], w)
         | Some w' \<Rightarrow>
             (Returned 0, [],
              ofstream_write
                (c_str (spec_ltrim (drop 1 (dropWhile (\<lambda>c. c \<noteq> CHR ''>'') args))))
                (spec_rtrim (takeWhile (\<lambda>c. c \<noteq> CHR ''>'') args)) w')))"
proof (cases "CHR ''>'' \<in> set args")
  case False
  then show ?thesis by (simp add: echo_def find_char_absent)
next
  case True
  let ?content = "takeWhile (\<lambda>c. c \<noteq> CHR ''>'') args"
  let ?rest = "drop 1 (dropWhile (\<lambda>c. c \<noteq> CHR ''>'') args)"
  have found: "find_char args CHR ''>'' \<noteq> npos"
    using True assms by (simp add: find_char_npos_iff)
  have "length ?content \<le> length args" by (rule length_takeWhile_le)
  then have lc: "length ?content < npos" using assms by simp
  have "length ?rest \<le> length args"
    using length_dropWhile_le [of "\<lambda>c. c \<noteq> CHR ''>''" args] by simp
  then have lr: "length ?rest < npos" using assms by simp
  show ?thesis
    using found True substr_prefix [OF True] substr_suffix [OF True assms]
      content_trim [OF lc] filename_trim [OF lr]
    by (simp add: echo_def cong: option.case_cong)
qed

text \<open>\<open>ls\<close> and \<open>rm\<close> always return; an exception leaves the dispatcher from \<open>echo\<close>
  for a redirect with a blank target, and from \<open>cat\<close> for a directory.\<close>

lemma handlers_return:
  "\<exists>r. fst (ls a w) = Returned r"
  "\<exists>r. fst (rm a w) = Returned r"
  by (auto simp: ls_def Let_def rm_def split: option.split)

lemma cat_throws_iff:
  "(\<exists>x. fst (cat a w) = Thrown x) = (a \<noteq> [] \<and> ifstream_open (c_str a) w = Some DirStream)"
  by (auto simp: cat_eq split: option.split stream.split)

lemma echo_throws_iff:
  assumes "length a < npos"
  shows "(\<exists>x. fst (echo a w) = Thrown x) =
           (CHR ''>'' \<in> set a \<and>
            (\<forall>c\<in>set (drop 1 (dropWhile (\<lambda>c. c \<noteq> CHR ''>'') a)). is_blank c))"
  by (auto simp: echo_eq [OF assms] split: option.split)

lemma dispatch_throws_iff:
  assumes "length line < npos"
  shows "(\<exists>x. fst (execute_command line w) = Thrown x) =
           (spec_name line = ''echo'' \<and> CHR ''>'' \<in> set (spec_argument line) \<and>
            (\<forall>c\<in>set (drop 1 (dropWhile (\<lambda>c. c \<noteq> CHR ''>'') (spec_argument line))).
               is_blank c) \<or>
            spec_name line = ''cat'' \<and> spec_argument line \<noteq> [] \<and>
            ifstream_open (c_str (spec_argument line)) w = Some DirStream)"
proof -
  have "length (spec_argument line) \<le> length line"
    using length_dropWhile_le [of "\<lambda>c. c \<noteq> CHR '' ''" line]
    by (simp add: spec_argument_def)
  then have la: "length (spec_argument line) < npos" using assms by simp
  show ?thesis
    using handlers_return [of "spec_argument line" w] echo_throws_iff [OF la, of w]
      cat_throws_iff [of "spec_argument line" w]
    by (auto simp: execute_command_split [OF assms] registry_lookup)
qed

text \<open>
  Claim C1 at the inputs where it fails. When nothing but spaces and tabs follows the
  first \<open>>\<close>, \<open>find_first_not_of\<close> yields \<open>npos\<close>, \<open>substr\<close> throws
  \<open>std::out_of_range\<close>, and neither \<open>echo\<close> nor \<open>execute_command\<close> nor \<open>execute\<close>
  catches it: the call does not return a status, and nothing is logged.
\<close>

theorem echo_blank_target_escapes_dispatch:
  "execute (Some ''echo hi>'') w = (Thrown out_of_range, [], w) \<and>
   execute (Some [CHR ''e'', CHR ''c'', CHR ''h'', CHR ''o'', CHR '' '', CHR ''h'', CHR ''i'',
                  CHR '' '', CHR ''>'', CHR '' '', CHR 0x09]) w
     = (Thrown out_of_range, [], w) \<and>
   execute_command ''echo >'' w = (Thrown out_of_range, [], w)"
  by (simp add: execute_def execute_command_def c_str_def NUL_def find_char_def npos_def
      substr_def size_t_add_def command_registry_def echo_def find_last_not_of_def
      find_first_not_of_def blanks_def)

text \<open>
  Claim C4 at the inputs where it fails. With a redirect whose target is empty or blank,
  \<open>echo\<close> neither writes a file nor returns a negative value: it throws.
\<close>

theorem echo_blank_target_throws:
  "echo ''hi>'' w = (Thrown out_of_range, [], w) \<and>
   echo [CHR ''h'', CHR ''i'', CHR '' '', CHR ''>'', CHR '' '', CHR 0x09] w
     = (Thrown out_of_range, [], w)"
  by (simp add: find_char_def npos_def substr_def size_t_add_def echo_def
      find_last_not_of_def find_first_not_of_def blanks_def)

section \<open>What is logged\<close>

lemma ls_failure_logged:
  "fst (ls a w) = Returned r \<Longrightarrow> r < 0 \<Longrightarrow> has_error (fst (snd (ls a w)))"
  by (auto simp: ls_def Let_def has_error_def split: option.splits)

lemma cat_failure_logged:
  "fst (cat a w) = Returned r \<Longrightarrow> r < 0 \<Longrightarrow> has_error (fst (snd (cat a w)))"
  by (auto simp: cat_eq has_error_def split: option.splits if_splits stream.splits)

lemma rm_failure_logged:
  "fst (rm a w) = Returned r \<Longrightarrow> r < 0 \<Longrightarrow> has_error (fst (snd (rm a w)))"
  by (auto simp: rm_def has_error_def split: option.splits if_splits)

lemma echo_failure_logged:
  "fst (echo a w) = Returned r \<Longrightarrow> r < 0 \<Longrightarrow> has_error (fst (snd (echo a w)))"
  by (auto simp: echo_def Let_def has_error_def split: option.splits if_splits sum.splits)

lemma echo_redirect_silent:
  "find_char a CHR ''>'' \<noteq> npos \<Longrightarrow> fst (echo a w) = Returned 0 \<Longrightarrow> fst (snd (echo a w)) = []"
  by (auto simp: echo_def Let_def split: option.splits if_splits sum.splits)

lemma echo_plain_logged:
  "find_char a CHR ''>'' = npos \<Longrightarrow> echo a w = (Returned 0, [(Info, c_str a)], w)"
  by (simp add: echo_def)

lemma rm_success_silent:
  "fst (rm a w) = Returned 0 \<Longrightarrow> fst (snd (rm a w)) = []"
  by (auto simp: rm_def split: option.splits if_splits)

lemma registry_handlers:
  "map_of command_registry cmd = Some h \<Longrightarrow> h = ls \<or> h = cat \<or> h = echo \<or> h = rm"
  by (auto simp: registry_lookup split: if_splits)

lemma execute_command_cases:
  "(\<exists>x. execute_command line w = (Thrown x, [], w)) \<or>
   execute_command line w = (Returned (- 1), [(Err, ''Unknown command'')], w) \<or>
   (\<exists>a. execute_command line w = ls a w \<or> execute_command line w = cat a w \<or>
        execute_command line w = echo a w \<or> execute_command line w = rm a w)"
proof -
  define space_pos where "space_pos = find_char line CHR '' ''"
  define r1 where
    "r1 = (if space_pos \<noteq> npos then substr line 0 space_pos else Inr line)"
  define r2 where
    "r2 = (if space_pos \<noteq> npos then substr line (size_t_add space_pos 1) npos else Inr [])"
  have unfolded: "execute_command line w =
      (case r1 of
         Inl x \<Rightarrow> (Thrown x, [], w)
       | Inr cmd \<Rightarrow>
           (case r2 of
              Inl x \<Rightarrow> (Thrown x, [], w)
            | Inr args \<Rightarrow>
                (case map_of command_registry cmd of
                   None \<Rightarrow> (Returned (- 1), [(Err, ''Unknown command'')], w)
                 | Some handler \<Rightarrow> handler args w)))"
    unfolding execute_command_def Let_def r1_def r2_def space_pos_def ..
  show ?thesis
  proof (cases r1)
    case (Inl x)
    then show ?thesis by (simp add: unfolded)
  next
    case cmd: (Inr cmd)
    show ?thesis
    proof (cases r2)
      case (Inl x)
      then show ?thesis by (simp add: unfolded cmd)
    next
      case args: (Inr args)
      show ?thesis
      proof (cases "map_of command_registry cmd")
        case None
        then show ?thesis by (simp add: unfolded cmd args)
      next
        case (Some h)
        then have "h = ls \<or> h = cat \<or> h = echo \<or> h = rm" by (rule registry_handlers)
        moreover have "execute_command line w = h args w"
          by (simp add: unfolded cmd args Some)
        ultimately show ?thesis by metis
      qed
    qed
  qed
qed

lemma execute_command_failure_logged:
  assumes "fst (execute_command line w) = Returned r" and "r < 0"
  shows "has_error (fst (snd (execute_command line w)))"
  using execute_command_cases [of line w] assms
    ls_failure_logged [of _ w r] cat_failure_logged [of _ w r]
    echo_failure_logged [of _ w r] rm_failure_logged [of _ w r]
  by (elim disjE exE) (auto simp: has_error_def)

lemma execute_failure_logged:
  assumes "fst (execute command w) = Returned r" and "r < 0"
  shows "has_error (fst (snd (execute command w)))"
proof (cases "\<exists>m. command = Some m \<and> c_str m \<noteq> []")
  case True
  then show ?thesis
    using assms execute_command_failure_logged by (auto simp: execute_def)
next
  case False
  then have "execute command w = (Returned (- 1), [(Err, ''Empty or invalid command'')], w)"
    by (auto simp: execute_def split: option.split)
  then show ?thesis by (simp add: has_error_def)
qed

lemma boundary_failures_logged:
  "fst (write_file p c w) < 0 \<Longrightarrow> has_error (fst (snd (write_file p c w)))"
  "fst (read_file p w) = None \<Longrightarrow> has_error (fst (snd (read_file p w)))"
  "fst (delete_file p w) < 0 \<Longrightarrow> has_error (fst (snd (delete_file p w)))"
  "fst (list_directory p w) = None \<Longrightarrow> has_error (fst (snd (list_directory p w)))"
  by (auto simp: write_file_eq read_file_eq delete_file_def list_directory_eq has_error_def
      split: option.splits if_splits stream.splits)

lemma logged_successes:
  "fst (write_file p c w) = 0 \<Longrightarrow> fst (snd (write_file p c w)) \<noteq> []"
  "fst (delete_file p w) = 0 \<Longrightarrow> fst (snd (delete_file p w)) \<noteq> []"
  "fst (ls args w) = Returned 0 \<Longrightarrow> fst (snd (ls args w)) \<noteq> []"
  "fst (cat args w) = Returned 0 \<Longrightarrow> fst (snd (cat args w)) \<noteq> []"
  "find_char args CHR ''>'' = npos \<Longrightarrow> fst (snd (echo args w)) \<noteq> []"
  by (auto simp: write_file_eq delete_file_def ls_def Let_def cat_eq echo_def
      split: option.splits if_splits stream.splits)

text \<open>
  Claim C8, amended. Every failure that is reported through a return value (a negative
  status of \<open>execute\<close>, of a command handler, of \<open>write_file\<close> or \<open>delete_file\<close>, a
  null buffer of \<open>read_file\<close> or \<open>list_directory\<close>) comes with at least one error
  message, and the successes of \<open>write_file\<close>, \<open>delete_file\<close>, \<open>ls\<close>, \<open>cat\<close> and of
  \<open>echo\<close> without \<open>>\<close> are logged too; \<open>rm\<close> on a successful deletion and \<open>echo\<close>
  on a successful redirect log nothing.
\<close>

theorem failures_logged_some_successes_silent:
  "(fst (execute command w) = Returned r \<and> r < 0
      \<longrightarrow> has_error (fst (snd (execute command w)))) \<and>
   (fst (ls args w) = Returned r \<and> r < 0 \<longrightarrow> has_error (fst (snd (ls args w)))) \<and>
   (fst (cat args w) = Returned r \<and> r < 0 \<longrightarrow> has_error (fst (snd (cat args w)))) \<and>
   (fst (echo args w) = Returned r \<and> r < 0 \<longrightarrow> has_error (fst (snd (echo args w)))) \<and>
   (fst (rm args w) = Returned r \<and> r < 0 \<longrightarrow> has_error (fst (snd (rm args w)))) \<and>
   (fst (write_file p c w) < 0 \<longrightarrow> has_error (fst (snd (write_file p c w)))) \<and>
   (fst (read_file p w) = None \<longrightarrow> has_error (fst (snd (read_file p w)))) \<and>
   (fst (delete_file p w) < 0 \<longrightarrow> has_error (fst (snd (delete_file p w)))) \<and>
   (fst (list_directory p w) = None \<longrightarrow> has_error (fst (snd (list_directory p w)))) \<and>
   (fst (write_file p c w) = 0 \<longrightarrow> fst (snd (write_file p c w)) \<noteq> []) \<and>
   (fst (delete_file p w) = 0 \<longrightarrow> fst (snd (delete_file p w)) \<noteq> []) \<and>
   (fst (ls args w) = Returned 0 \<longrightarrow> fst (snd (ls args w)) \<noteq> []) \<and>
   (fst (cat args w) = Returned 0 \<longrightarrow> fst (snd (cat args w)) \<noteq> []) \<and>
   (find_char args CHR ''>'' = npos \<longrightarrow> fst (snd (echo args w)) \<noteq> []) \<and>
   (fst (rm args w) = Returned 0 \<longrightarrow> fst (snd (rm args w)) = []) \<and>
   (find_char args CHR ''>'' \<noteq> npos \<and> fst (echo args w) = Returned 0
      \<longrightarrow> fst (snd (echo args w)) = [])"
proof -
  have failures:
    "fst (execute command w) = Returned r \<and> r < 0
       \<longrightarrow> has_error (fst (snd (execute command w)))"
    "fst (ls args w) = Returned r \<and> r < 0 \<longrightarrow> has_error (fst (snd (ls args w)))"
    "fst (cat args w) = Returned r \<and> r < 0 \<longrightarrow> has_error (fst (snd (cat args w)))"
    "fst (echo args w) = Returned r \<and> r < 0 \<longrightarrow> has_error (fst (snd (echo args w)))"
    "fst (rm args w) = Returned r \<and> r < 0 \<longrightarrow> has_error (fst (snd (rm args w)))"
    using execute_failure_logged [of command w r]
      ls_failure_logged [of args w r] cat_failure_logged [of args w r]
      echo_failure_logged [of args w r] rm_failure_logged [of args w r]
    by blast+
  have boundary:
    "fst (write_file p c w) < 0 \<longrightarrow> has_error (fst (snd (write_file p c w)))"
    "fst (read_file p w) = None \<longrightarrow> has_error (fst (snd (read_file p w)))"
    "fst (delete_file p w) < 0 \<longrightarrow> has_error (fst (snd (delete_file p w)))"
    "fst (list_directory p w) = None \<longrightarrow> has_error (fst (snd (list_directory p w)))"
    using boundary_failures_logged by blast+
  have logged:
    "fst (write_file p c w) = 0 \<longrightarrow> fst (snd (write_file p c w)) \<noteq> []"
    "fst (delete_file p w) = 0 \<longrightarrow> fst (snd (delete_file p w)) \<noteq> []"
    "fst (ls args w) = Returned 0 \<longrightarrow> fst (snd (ls args w)) \<noteq> []"
    "fst (cat args w) = Returned 0 \<longrightarrow> fst (snd (cat args w)) \<noteq> []"
    "find_char args CHR ''>'' = npos \<longrightarrow> fst (snd (echo args w)) \<noteq> []"
    using logged_successes by blast+
  have silent:
    "fst (rm args w) = Returned 0 \<longrightarrow> fst (snd (rm args w)) = []"
    "find_char args CHR ''>'' \<noteq> npos \<and> fst (echo args w) = Returned 0
       \<longrightarrow> fst (snd (echo args w)) = []"
    using rm_success_silent [of args w] echo_redirect_silent [of args w] by blast+
  from failures boundary logged silent show ?thesis
    by (intro conjI)
qed

theorem failures_logged_some_successes_silent_witness:
  "fst (execute (Some ''rm /nope'') demo_world) = Returned (- 1) \<and>
   has_error (fst (snd (execute (Some ''rm /nope'') demo_world))) \<and>
   fst (read_file ''/nope'' demo_world) = None \<and>
   has_error (fst (snd (read_file ''/nope'' demo_world))) \<and>
   fst (rm ''/bad'' demo_world) = Returned 0 \<and>
   fst (snd (rm ''/bad'' demo_world)) = []"
proof -
  have a: "fst (execute (Some ''rm /nope'') demo_world) = Returned (- 1)"
    by (simp add: execute_def execute_command_def c_str_def NUL_def find_char_def npos_def
        substr_def size_t_add_def command_registry_def rm_def remove_path_def stat_def
        demo_world_def)
  have b: "fst (read_file ''/nope'' demo_world) = None"
    by (simp add: read_file_eq ifstream_open_def stat_def demo_world_def c_str_def NUL_def)
  have c: "fst (rm ''/bad'' demo_world) = Returned 0"
    by (simp add: rm_def remove_path_def stat_def demo_world_def c_str_def NUL_def)
  show ?thesis
    using failures_logged_some_successes_silent
      [where command = "Some ''rm /nope''" and w = demo_world and r = "- 1"
         and p = "''/nope''" and args = "''/bad''"]
      a b c
    by simp
qed

text \<open>Claim C8 as stated fails: a successful \<open>rm\<close> and a successful redirecting
  \<open>echo\<close> return \<open>0\<close> with an empty log.\<close>

theorem silent_success_counterexample:
  "fst (rm ''/a.txt'' demo_world) = Returned 0 \<and>
   fst (snd (rm ''/a.txt'' demo_world)) = [] \<and>
   fst (echo ''hi > /out.txt'' demo_world) = Returned 0 \<and>
   fst (snd (echo ''hi > /out.txt'' demo_world)) = [] \<and>
   nodes (snd (snd (echo ''hi > /out.txt'' demo_world))) ''/out.txt'' = Some (File ''hi'')"
  by (simp add: rm_def remove_path_def stat_def demo_world_def c_str_def NUL_def echo_def
      find_char_def npos_def substr_def size_t_add_def find_last_not_of_def
      find_first_not_of_def blanks_def ofstream_open_def ofstream_write_def)

end
